theory Spec2Isabelle
  imports Main "HOL-Library.Word" "HOL-Library.Log_Nat"
begin

unbundle bit_operations_syntax

section \<open>Default speed assignment (mjolnir/speed\_assigner.h)\<close>

text \<open>
  The header defines the class \<open>SpeedAssigner\<close>: a table registry read once from a JSON
  document, the override \<open>FromConfig\<close> that assigns an edge's speed from that registry, and
  \<open>UpdateSpeed\<close>, which tries the override and otherwise runs a waterfall of heuristics.
  Each definition below translates the function of the same name, or the part of a function
  that its heading names. Mutation of the edge is explicit state passing: a function that
  takes \<open>DirectedEdge&\<close> returns the edge. Calls to the logging macros are left out; they
  touch neither the edge nor the registry.
\<close>

subsection \<open>Machine integers and failures\<close>

type_synonym u32 = "32 word"

text \<open>
  What the C++ leaves undefined is a value of the model: an index outside an array, and
  a conversion of a \<open>float\<close> to \<open>uint32_t\<close> whose truncated value does not fit.
\<close>

datatype error = OutOfBounds | FloatToUintOverflow

subsection \<open>The \<open>float\<close> factors\<close>

text \<open>
  \<open>static_cast<uint32_t>((speed * factor) + 0.5f)\<close> is computed in IEEE 754 binary32 with
  round-to-nearest, ties-to-even, each operation rounded on its own: the speed is converted
  to \<open>float\<close>, multiplied, one half is added, and the sum is truncated. All values that occur
  are non-negative and in the normal range, so a value is held exactly as a natural number
  of units (units of 1 for the converted speed, units of \<open>2^-24\<close> for the factors, the
  product and the sum), and rounding to binary32 is rounding that number to 24 significant
  bits, whatever the unit.
\<close>

definition f32_round :: "nat \<Rightarrow> nat" where
  "f32_round q =
     (let b = floorlog 2 q in
      if b \<le> 24 then q
      else let d = b - 24; t = q div 2 ^ d; r = q mod 2 ^ d
           in (if 2 ^ d < 2 * r \<or> (2 * r = 2 ^ d \<and> odd t) then t + 1 else t) * 2 ^ d)"

text \<open>The factors, in units of \<open>2^-24\<close>: \<open>1.25f\<close>, \<open>0.5f\<close> are exact, \<open>0.8f\<close> and
  \<open>0.85f\<close> are the binary32 values nearest to 4/5 and 17/20.\<close>

definition kTurnChannelFactor :: nat where "kTurnChannelFactor = 20971520"
definition kRampDensityFactor :: nat where "kRampDensityFactor = 13421773"
definition kRampFactor :: nat where "kRampFactor = 14260634"
definition kRoundaboutFactor :: nat where "kRoundaboutFactor = 8388608"

definition scaled_speed :: "u32 \<Rightarrow> nat \<Rightarrow> error + u32" where
  "scaled_speed speed factor =
     (let x = f32_round (unat speed);
          p = f32_round (x * factor);
          y = f32_round (p + 8388608);
          v = y div 16777216
      in if v < 2 ^ 32 then Inr (of_nat v) else Inl FloatToUintOverflow)"

subsection \<open>Edges and constants declared elsewhere\<close>

text \<open>
  Modelled from the spec: the enumerations \<open>RoadClass\<close>, \<open>Use\<close> and \<open>SpeedType\<close> and the
  class \<open>DirectedEdge\<close> are declared in headers that are not part of the source at hand.
  The spec describes the classification as an ordinal rank 0..7 with motorway = 0, the use
  as a category (ramp, turn channel, driveway, alley, parking aisle, drive-through, ferry,
  rail ferry and others), the speed provenance as tagged or not, and the edge as attribute
  storage whose speed is a single scalar mutated in place. \<open>rank\<close> is
  \<open>static_cast<size_t>(classification)\<close>. The uses the code never tells apart are
  \<open>kOtherUse\<close>. The surface is its ordinal rank. The fields this code never reads are the
  extension part of the record.
\<close>

datatype RoadClass =
  kMotorway | kTrunk | kPrimary | kSecondary | kTertiary | kUnclassified | kResidential
  | kServiceOther

fun rank :: "RoadClass \<Rightarrow> nat" where
  "rank kMotorway = 0"
| "rank kTrunk = 1"
| "rank kPrimary = 2"
| "rank kSecondary = 3"
| "rank kTertiary = 4"
| "rank kUnclassified = 5"
| "rank kResidential = 6"
| "rank kServiceOther = 7"

datatype Use =
  kRoad | kRamp | kTurnChannel | kDriveway | kAlley | kParkingAisle | kDriveThru | kFerry
  | kRailFerry | kOtherUse nat

datatype SpeedType = kTagged | kClassified

record DirectedEdge =
  use :: Use
  forwardaccess :: u32
  reverseaccess :: u32
  classification :: RoadClass
  link :: bool
  roundabout :: bool
  sign :: bool
  surface :: nat
  speed :: u32
  speed_type :: SpeedType
  edge_length :: u32
  leaves_tile :: bool

text \<open>
  Modelled from the spec: \<open>DirectedEdge::set_speed\<close> is not part of the source at hand. The
  spec has the computed value assigned to the edge's scalar speed, so it stores the value
  it is given.
\<close>

definition set_speed :: "'a DirectedEdge_scheme \<Rightarrow> u32 \<Rightarrow> 'a DirectedEdge_scheme" where
  "set_speed e v = e\<lparr>speed := v\<rparr>"

text \<open>
  The constants \<open>kVehicularAccess\<close> (an access mask), \<open>Surface::kPavedRough\<close> (a surface
  rank), \<open>kParkingAisleSpeed\<close>, \<open>kDrivewaySpeed\<close> and \<open>kDriveThruSpeed\<close> are defined in a
  header that is not part of the source at hand: they are parameters of the model.
\<close>

record constants =
  kVehicularAccess :: u32
  kPavedRough :: nat
  kParkingAisleSpeed :: u32
  kDrivewaySpeed :: u32
  kDriveThruSpeed :: u32

subsection \<open>Speed tables and the registry\<close>

text \<open>
  A \<open>std::array<uint32_t, N>\<close> is a function on indices of which only those below \<open>N\<close>
  exist; \<open>array_at N\<close> is the unchecked \<open>operator[]\<close>. \<open>tables\<close> is the
  \<open>unordered_map\<close> from key to the pair \<open>{urban, rural}\<close>.
\<close>

record SpeedTable =
  way :: "nat \<Rightarrow> u32"
  link_exiting :: "nat \<Rightarrow> u32"
  link_turning :: "nat \<Rightarrow> u32"
  roundabout_speeds :: "nat \<Rightarrow> u32"
  service :: "nat \<Rightarrow> u32"

definition array_at :: "nat \<Rightarrow> (nat \<Rightarrow> u32) \<Rightarrow> nat \<Rightarrow> error + u32" where
  "array_at n a i = (if i < n then Inr (a i) else Inl OutOfBounds)"

type_synonym tables = "string \<rightharpoonup> SpeedTable \<times> SpeedTable"

subsection \<open>\<open>FromConfig\<close>\<close>

text \<open>The three \<open>tables.find\<close> calls: country and state, then country only, then neither.\<close>

definition find_tables :: "tables \<Rightarrow> string \<Rightarrow> string \<Rightarrow> (SpeedTable \<times> SpeedTable) option" where
  "find_tables ts country state =
     (case ts (country @ ''.'' @ state) of
        Some found \<Rightarrow> Some found
      | None \<Rightarrow>
          (case ts (country @ ''.'') of
             Some found \<Rightarrow> Some found
           | None \<Rightarrow> ts ''''))"

definition assign :: "'a DirectedEdge_scheme \<Rightarrow> error + u32 \<Rightarrow> error + bool \<times> 'a DirectedEdge_scheme" where
  "assign e r = (case r of Inl err \<Rightarrow> Inl err | Inr v \<Rightarrow> Inr (True, set_speed e v))"

text \<open>The body of \<open>FromConfig\<close> from the \<open>switch\<close> on, for the chosen table and \<open>rc\<close>.\<close>

definition assign_from_table ::
  "SpeedTable \<Rightarrow> nat \<Rightarrow> 'a DirectedEdge_scheme \<Rightarrow> error + bool \<times> 'a DirectedEdge_scheme" where
  "assign_from_table speed_table rc e =
     (if use e = kDriveway then assign e (array_at 4 (service speed_table) 0)
      else if use e = kAlley then assign e (array_at 4 (service speed_table) 1)
      else if use e = kParkingAisle then assign e (array_at 4 (service speed_table) 2)
      else if use e = kDriveThru then assign e (array_at 4 (service speed_table) 3)
      else if link e then
        (if rc \<ge> 5 then Inr (False, e)
         else if sign e then assign e (array_at 5 (link_exiting speed_table) rc)
         else assign e (array_at 5 (link_turning speed_table) rc))
      else if roundabout e then assign e (array_at 8 (roundabout_speeds speed_table) rc)
      else assign e (array_at 8 (way speed_table) rc))"

text \<open>\<open>found->second[density <= 8]\<close>: index 1, the rural table, when \<open>density <= 8\<close>.\<close>

definition FromConfig ::
  "constants \<Rightarrow> tables \<Rightarrow> 'a DirectedEdge_scheme \<Rightarrow> u32 \<Rightarrow> string \<Rightarrow> string
     \<Rightarrow> error + bool \<times> 'a DirectedEdge_scheme" where
  "FromConfig k ts e density country state =
     (if use e = kFerry \<or> use e = kRailFerry
         \<or> (forwardaccess e OR reverseaccess e) AND kVehicularAccess k = 0
      then Inr (False, e)
      else case find_tables ts country state of
        None \<Rightarrow> Inr (False, e)
      | Some found \<Rightarrow>
          (let speed_table = (if density \<le> 8 then snd found else fst found);
               rc = rank (classification e)
           in assign_from_table speed_table rc e))"

subsection \<open>\<open>UpdateSpeed\<close>\<close>

text \<open>\<open>urban_rc_speed\<close> points into an array of the caller: the list is that array, and a
  read past its end is out of bounds.\<close>

definition urban_at :: "u32 list \<Rightarrow> nat \<Rightarrow> error + u32" where
  "urban_at urban_rc_speed rc =
     (if rc < length urban_rc_speed then Inr (urban_rc_speed ! rc) else Inl OutOfBounds)"

definition store :: "'a DirectedEdge_scheme \<Rightarrow> error + u32 \<Rightarrow> error + 'a DirectedEdge_scheme" where
  "store e r = (case r of Inl err \<Rightarrow> Inl err | Inr v \<Rightarrow> Inr (set_speed e v))"

text \<open>The branch for links.\<close>

definition link_speed :: "'a DirectedEdge_scheme \<Rightarrow> u32 \<Rightarrow> bool \<Rightarrow> error + u32" where
  "link_speed e density infer_turn_channels =
     (if use e = kTurnChannel \<and> infer_turn_channels
      then scaled_speed (speed e) kTurnChannelFactor
      else if use e = kRamp \<and> speed_type e \<noteq> kTagged then
        (let rc = classification e in
         if rc = kMotorway \<or> rc = kTrunk \<or> rc = kPrimary
         then (if density > 8 then scaled_speed (speed e) kRampDensityFactor
               else scaled_speed (speed e) kRampFactor)
         else scaled_speed (speed e) kRampFactor)
      else Inr (speed e))"

text \<open>The branch for a tagged speed.\<close>

definition tagged_speed :: "constants \<Rightarrow> 'a DirectedEdge_scheme \<Rightarrow> 'a DirectedEdge_scheme" where
  "tagged_speed k e =
     (if surface e \<ge> kPavedRough k then
        (if speed e \<ge> 50 then set_speed e (speed e - 10)
         else if speed e > 15 then set_speed e (speed e - 5)
         else e)
      else e)"

text \<open>The branch for ferries.\<close>

definition ferry_speed :: "'a DirectedEdge_scheme \<Rightarrow> 'a DirectedEdge_scheme" where
  "ferry_speed e =
     (if leaves_tile e then e
      else if edge_length e < 2000 then set_speed e 10
      else if edge_length e < 8000 then set_speed e 20
      else set_speed e 30)"

text \<open>The four statements that end the function.\<close>

definition urban_step :: "'a DirectedEdge_scheme \<Rightarrow> u32 \<Rightarrow> u32 list \<Rightarrow> error + 'a DirectedEdge_scheme" where
  "urban_step e density urban_rc_speed =
     (if density > 8 then store e (urban_at urban_rc_speed (rank (classification e)))
      else Inr e)"

definition roundabout_step :: "'a DirectedEdge_scheme \<Rightarrow> error + 'a DirectedEdge_scheme" where
  "roundabout_step e =
     (if roundabout e then store e (scaled_speed (speed e) kRoundaboutFactor) else Inr e)"

definition service_step :: "constants \<Rightarrow> 'a DirectedEdge_scheme \<Rightarrow> 'a DirectedEdge_scheme" where
  "service_step k e =
     (if use e = kParkingAisle then set_speed e (kParkingAisleSpeed k)
      else if use e = kDriveway then set_speed e (kDrivewaySpeed k)
      else if use e = kDriveThru then set_speed e (kDriveThruSpeed k)
      else e)"

definition surface_step :: "constants \<Rightarrow> 'a DirectedEdge_scheme \<Rightarrow> 'a DirectedEdge_scheme" where
  "surface_step k e =
     (if surface e \<ge> kPavedRough k then set_speed e (speed e div 2) else e)"

text \<open>\<open>UpdateSpeed\<close> after its first statement.\<close>

definition heuristic ::
  "constants \<Rightarrow> 'a DirectedEdge_scheme \<Rightarrow> u32 \<Rightarrow> u32 list \<Rightarrow> bool \<Rightarrow> error + 'a DirectedEdge_scheme" where
  "heuristic k e density urban_rc_speed infer_turn_channels =
     (if link e then store e (link_speed e density infer_turn_channels)
      else if speed_type e = kTagged then Inr (tagged_speed k e)
      else if use e = kRailFerry then Inr (set_speed e 65)
      else if use e = kFerry then Inr (ferry_speed e)
      else case urban_step e density urban_rc_speed of
        Inl err \<Rightarrow> Inl err
      | Inr e1 \<Rightarrow>
          (case roundabout_step e1 of
             Inl err \<Rightarrow> Inl err
           | Inr e2 \<Rightarrow> Inr (surface_step k (service_step k e2))))"

definition UpdateSpeed ::
  "constants \<Rightarrow> tables \<Rightarrow> 'a DirectedEdge_scheme \<Rightarrow> u32 \<Rightarrow> u32 list \<Rightarrow> bool \<Rightarrow> string \<Rightarrow> string
     \<Rightarrow> error + 'a DirectedEdge_scheme" where
  "UpdateSpeed k ts e density urban_rc_speed infer_turn_channels country_code state_code =
     (if ts \<noteq> Map.empty then
        (case FromConfig k ts e density country_code state_code of
           Inl err \<Rightarrow> Inl err
         | Inr (resolved, e') \<Rightarrow>
             if resolved then Inr e'
             else heuristic k e' density urban_rc_speed infer_turn_channels)
      else heuristic k e density urban_rc_speed infer_turn_channels)"

subsection \<open>Sample values\<close>

text \<open>Values for the parameters, the tables of the header's example document, and an edge,
  used to instantiate the theorems below.\<close>

definition sample_constants :: constants where
  "sample_constants =
     \<lparr>kVehicularAccess = 1, kPavedRough = 2, kParkingAisleSpeed = 15, kDrivewaySpeed = 10,
      kDriveThruSpeed = 10\<rparr>"

definition sample_urban :: SpeedTable where
  "sample_urban =
     \<lparr>way = (\<lambda>i. [1, 2, 3, 4, 5, 6, 7, 8] ! i),
      link_exiting = (\<lambda>i. [9, 10, 11, 12, 13] ! i),
      link_turning = (\<lambda>i. [15, 16, 17, 18, 19] ! i),
      roundabout_speeds = (\<lambda>i. [21, 22, 23, 24, 25, 26, 27, 28] ! i),
      service = (\<lambda>i. [29, 30, 31, 32] ! i)\<rparr>"

definition sample_rural :: SpeedTable where
  "sample_rural =
     \<lparr>way = (\<lambda>i. [33, 34, 35, 36, 37, 38, 39, 40] ! i),
      link_exiting = (\<lambda>i. [41, 42, 43, 44, 45] ! i),
      link_turning = (\<lambda>i. [47, 48, 49, 50, 51] ! i),
      roundabout_speeds = (\<lambda>i. [53, 54, 55, 56, 57, 58, 59, 60] ! i),
      service = (\<lambda>i. [61, 62, 63, 64] ! i)\<rparr>"

definition sample_tables :: tables where
  "sample_tables = [''us.pa'' \<mapsto> (sample_urban, sample_rural)]"

definition sample_edge :: DirectedEdge where
  "sample_edge =
     \<lparr>use = kRoad, forwardaccess = 1, reverseaccess = 0, classification = kMotorway,
      link = False, roundabout = False, sign = False, surface = 0, speed = 60,
      speed_type = kClassified, edge_length = 1000, leaves_tile = False\<rparr>"

text \<open>The registry of the spec's lookup example: an exact key, a country key and the
  default key.\<close>


definition flat_table :: "u32 \<Rightarrow> SpeedTable" where
  "flat_table v =
     \<lparr>way = (\<lambda>i. v), link_exiting = (\<lambda>i. v), link_turning = (\<lambda>i. v),
      roundabout_speeds = (\<lambda>i. v), service = (\<lambda>i. v)\<rparr>"

definition spec_tables :: tables where
  "spec_tables =
     [''us.pa'' \<mapsto> (sample_urban, sample_rural),
      ''us.'' \<mapsto> (flat_table 72, flat_table 92),
      [] \<mapsto> (flat_table 73, flat_table 93)]"

subsection \<open>The factors in exact arithmetic\<close>


subsection \<open>The configuration document\<close>

text \<open>
  Modelled from the spec: the JSON reader (\<open>baldr/rapidjson_utils.h\<close>, with \<open>read_json\<close> and
  the value accessors) is not part of the source at hand. The spec describes the document
  as a sequence of records with named fields, and says that a missing field, a value of the
  wrong shape, a syntax error and a file that cannot be read are failures of the load which
  the constructor absorbs: so an accessor applied to a value of the wrong kind, or to a
  missing member, raises. \<open>JDouble\<close> is a number that is not an integer; its value is never
  read. \<open>read_json\<close> is a parameter: the file system, giving for a path an exception or a
  document, which may carry a parse error.
\<close>

datatype json =
  JNull | JBool bool | JInt int | JDouble | JString string | JArray "json list"
  | JObject "(string \<times> json) list"

datatype exn = runtime_error string | json_error | other_exception

datatype document = Unparsable | Parsed json

text \<open>Sequencing: an exception ends the evaluation.\<close>

definition ebind :: "exn + 'a \<Rightarrow> ('a \<Rightarrow> exn + 'b) \<Rightarrow> exn + 'b" where
  "ebind m f = (case m of Inl x \<Rightarrow> Inl x | Inr v \<Rightarrow> f v)"

text \<open>
  Modelled from the spec: the accessors \<open>operator[]\<close>, \<open>GetArray\<close>, \<open>GetUint\<close> and
  \<open>GetString\<close> of the JSON reader, which is not part of the source at hand. A missing
  member and a value of the wrong kind are failures of the load, so they raise; \<open>GetUint\<close>
  accepts the integers that fit 32 bits unsigned. A lookup finds the first member of that
  name.
\<close>

definition member :: "json \<Rightarrow> string \<Rightarrow> exn + json" where
  "member obj name =
     (case obj of
        JObject ms \<Rightarrow> (case map_of ms name of Some v \<Rightarrow> Inr v | None \<Rightarrow> Inl json_error)
      | _ \<Rightarrow> Inl json_error)"

definition GetArray :: "json \<Rightarrow> exn + json list" where
  "GetArray v = (case v of JArray xs \<Rightarrow> Inr xs | _ \<Rightarrow> Inl json_error)"

definition GetUint :: "json \<Rightarrow> exn + u32" where
  "GetUint v =
     (case v of
        JInt n \<Rightarrow> if 0 \<le> n \<and> n < 2 ^ 32 then Inr (of_int n) else Inl json_error
      | _ \<Rightarrow> Inl json_error)"

definition GetString :: "json \<Rightarrow> exn + string" where
  "GetString v = (case v of JString s \<Rightarrow> Inr s | _ \<Rightarrow> Inl json_error)"

subsection \<open>\<open>SpeedTable::parse\<close> and the constructors\<close>

text \<open>\<open>std::to_string\<close> of a \<open>size_t\<close>.\<close>

fun to_string :: "nat \<Rightarrow> string" where
  "to_string n =
     (if n < 10 then [''0123456789'' ! n]
      else to_string (n div 10) @ [''0123456789'' ! (n mod 10)])"

declare to_string.simps [simp del]

text \<open>The loop \<open>entries[i++] = speed.GetUint()\<close> over the array.\<close>

fun get_uints :: "json list \<Rightarrow> exn + u32 list" where
  "get_uints [] = Inr []"
| "get_uints (x # rest) =
     ebind (GetUint x) (\<lambda>v. ebind (get_uints rest) (\<lambda>vs. Inr (v # vs)))"

definition parse :: "json \<Rightarrow> string \<Rightarrow> nat \<Rightarrow> exn + (nat \<Rightarrow> u32)" where
  "parse obj name n =
     ebind (member obj name) (\<lambda>v.
     ebind (GetArray v) (\<lambda>arr.
       if length arr \<noteq> n
       then Inl (runtime_error (name @ '' must have '' @ to_string n @ '' speeds''))
       else ebind (get_uints arr) (\<lambda>entries. Inr (\<lambda>i. entries ! i))))"

definition SpeedTable_ctor :: "json \<Rightarrow> exn + SpeedTable" where
  "SpeedTable_ctor obj =
     ebind (parse obj ''way'' 8) (\<lambda>w.
     ebind (parse obj ''link_exiting'' 5) (\<lambda>le.
     ebind (parse obj ''link_turning'' 5) (\<lambda>lt.
     ebind (parse obj ''roundabout'' 8) (\<lambda>rb.
     ebind (ebind (member obj ''driveway'') GetUint) (\<lambda>s0.
     ebind (ebind (member obj ''alley'') GetUint) (\<lambda>s1.
     ebind (ebind (member obj ''parking_aisle'') GetUint) (\<lambda>s2.
     ebind (ebind (member obj ''drive-through'') GetUint) (\<lambda>s3.
       Inr \<lparr>way = w, link_exiting = le, link_turning = lt, roundabout_speeds = rb,
            service = (\<lambda>i. [s0, s1, s2, s3] ! i)\<rparr>))))))))"

text \<open>\<open>unordered_map::emplace\<close> inserts only when the key is absent.\<close>

definition emplace :: "string \<Rightarrow> SpeedTable \<times> SpeedTable \<Rightarrow> tables \<Rightarrow> tables" where
  "emplace code v ts = (case ts code of None \<Rightarrow> ts(code \<mapsto> v) | Some _ \<Rightarrow> ts)"

text \<open>One turn of the loop over the country/state records, up to the \<open>emplace\<close>.\<close>

definition load_record :: "json \<Rightarrow> exn + string \<times> SpeedTable \<times> SpeedTable" where
  "load_record cs =
     ebind (ebind (member cs ''iso3166-1'') GetString) (\<lambda>c1.
     ebind (ebind (member cs ''iso3166-2'') GetString) (\<lambda>c2.
     ebind (ebind (member cs ''urban'') SpeedTable_ctor) (\<lambda>urban.
     ebind (ebind (member cs ''rural'') SpeedTable_ctor) (\<lambda>rural.
       Inr (c1 @ ''.'' @ c2, urban, rural)))))"

fun load_records :: "json list \<Rightarrow> tables \<Rightarrow> exn + tables" where
  "load_records [] ts = Inr ts"
| "load_records (cs # rest) ts =
     ebind (load_record cs) (\<lambda>(code, v). load_records rest (emplace code v ts))"

text \<open>The \<open>try\<close> block, from the document on.\<close>

definition load :: "document \<Rightarrow> exn + tables" where
  "load doc =
     (case doc of
        Unparsable \<Rightarrow> Inl (runtime_error ''malformed json'')
      | Parsed v \<Rightarrow>
          (case v of
             JArray css \<Rightarrow> load_records css Map.empty
           | _ \<Rightarrow> Inl (runtime_error ''must be a json array'')))"

text \<open>The constructor. Its result is the \<open>tables\<close> member; \<open>Inl\<close> would be an exception that
  leaves it. Both handlers clear the tables.\<close>

definition SpeedAssigner :: "(string \<Rightarrow> exn + document) \<Rightarrow> string option \<Rightarrow> exn + tables" where
  "SpeedAssigner read_json config_file =
     (case config_file of
        None \<Rightarrow> Inr Map.empty
      | Some path \<Rightarrow>
          (case ebind (read_json path) load of
             Inl e \<Rightarrow> Inr Map.empty
           | Inr ts \<Rightarrow> Inr ts))"

subsection \<open>The shape of a configuration document\<close>

text \<open>
  The shape the spec gives for the document: a sequence of records, each with two string
  codes and an urban and a rural table specification of four arrays of 8, 5, 5 and 8
  unsigned integers and four unsigned integers. The length of the codes is not part of it:
  the constructor does not look at it. Then what it means for a table to hold the values of
  a table specification, and for the registry to hold a record.
\<close>

definition is_uint :: "json \<Rightarrow> bool" where
  "is_uint v = (case v of JInt n \<Rightarrow> 0 \<le> n \<and> n < 2 ^ 32 | _ \<Rightarrow> False)"

definition has_uints :: "json \<Rightarrow> string \<Rightarrow> nat \<Rightarrow> bool" where
  "has_uints obj name n =
     (case member obj name of
        Inr (JArray xs) \<Rightarrow> length xs = n \<and> list_all is_uint xs
      | _ \<Rightarrow> False)"

definition has_uint :: "json \<Rightarrow> string \<Rightarrow> bool" where
  "has_uint obj name = (case member obj name of Inr v \<Rightarrow> is_uint v | _ \<Rightarrow> False)"

definition has_string :: "json \<Rightarrow> string \<Rightarrow> bool" where
  "has_string obj name = (case member obj name of Inr (JString s) \<Rightarrow> True | _ \<Rightarrow> False)"

definition well_formed_table :: "json \<Rightarrow> bool" where
  "well_formed_table obj \<longleftrightarrow>
     has_uints obj ''way'' 8 \<and> has_uints obj ''link_exiting'' 5
     \<and> has_uints obj ''link_turning'' 5 \<and> has_uints obj ''roundabout'' 8
     \<and> has_uint obj ''driveway'' \<and> has_uint obj ''alley''
     \<and> has_uint obj ''parking_aisle'' \<and> has_uint obj ''drive-through''"

definition has_table :: "json \<Rightarrow> string \<Rightarrow> bool" where
  "has_table cs name = (case member cs name of Inr obj \<Rightarrow> well_formed_table obj | _ \<Rightarrow> False)"

definition well_formed_record :: "json \<Rightarrow> bool" where
  "well_formed_record cs \<longleftrightarrow>
     has_string cs ''iso3166-1'' \<and> has_string cs ''iso3166-2''
     \<and> has_table cs ''urban'' \<and> has_table cs ''rural''"

definition well_formed :: "document \<Rightarrow> bool" where
  "well_formed doc =
     (case doc of Parsed (JArray css) \<Rightarrow> list_all well_formed_record css | _ \<Rightarrow> False)"







subsection \<open>A sample document\<close>

text \<open>The document of the header's comment, and a second record with the same codes.\<close>

definition table_json :: "int \<Rightarrow> json" where
  "table_json n =
     JObject
      [(''way'', JArray (map (\<lambda>i. JInt (n + i)) [1, 2, 3, 4, 5, 6, 7, 8])),
       (''link_exiting'', JArray (map (\<lambda>i. JInt (n + i)) [9, 10, 11, 12, 13])),
       (''link_turning'', JArray (map (\<lambda>i. JInt (n + i)) [15, 16, 17, 18, 19])),
       (''roundabout'', JArray (map (\<lambda>i. JInt (n + i)) [21, 22, 23, 24, 25, 26, 27, 28])),
       (''driveway'', JInt (n + 29)), (''alley'', JInt (n + 30)),
       (''parking_aisle'', JInt (n + 31)), (''drive-through'', JInt (n + 32))]"

definition record_json :: "string \<Rightarrow> string \<Rightarrow> int \<Rightarrow> json" where
  "record_json c s n =
     JObject
      [(''iso3166-1'', JString c), (''iso3166-2'', JString s),
       (''urban'', table_json n), (''rural'', table_json (n + 32))]"

definition sample_doc :: document where
  "sample_doc = Parsed (JArray [record_json ''us'' ''pa'' 0])"


definition short_doc :: document where
  "short_doc =
     Parsed (JArray
      [record_json ''us'' ''pa'' 0,
       JObject
        [(''iso3166-1'', JString ''us''), (''iso3166-2'', JString ''ny''),
         (''urban'', JObject [(''way'', JArray [JInt 1, JInt 2, JInt 3])]),
         (''rural'', table_json 32)]])"


definition serve :: "exn + document \<Rightarrow> string \<Rightarrow> exn + document" where
  "serve r path = r"

definition missing_doc :: document where
  "missing_doc =
     Parsed (JArray
      [JObject
        [(''iso3166-1'', JString ''us''), (''urban'', table_json 0), (''rural'', table_json 32)]])"

section \<open>Properties\<close>

lemma assign_from_table_False:
  "assign_from_table t rc e = Inr (False, e') \<Longrightarrow> e' = e"
  by (auto simp: assign_from_table_def assign_def array_at_def split: if_splits sum.splits)

lemma FromConfig_False:
  "FromConfig k ts e density c s = Inr (False, e') \<Longrightarrow> e' = e"
  by (auto simp: FromConfig_def Let_def split: if_splits option.splits dest: assign_from_table_False)

lemma assign_from_table_frame:
  "assign_from_table t rc e = Inr (b, e') \<Longrightarrow> e' = e\<lparr>speed := speed e'\<rparr>"
  by (auto simp: assign_from_table_def assign_def array_at_def set_speed_def split: if_splits sum.splits)

lemma FromConfig_frame:
  "FromConfig k ts e density c s = Inr (b, e') \<Longrightarrow> e' = e\<lparr>speed := speed e'\<rparr>"
  by (auto simp: FromConfig_def Let_def split: if_splits option.splits dest: assign_from_table_frame)

lemma heuristic_frame:
  "heuristic k e density urban infer = Inr e' \<Longrightarrow> e' = e\<lparr>speed := speed e'\<rparr>"
  by (auto simp: heuristic_def tagged_speed_def ferry_speed_def urban_step_def roundabout_step_def
      service_step_def surface_step_def set_speed_def store_def split: if_splits sum.splits)

text \<open>
  Claim C1. For every edge: when the registry is not empty and \<open>FromConfig\<close> returns true,
  \<open>UpdateSpeed\<close> returns the edge as \<open>FromConfig\<close> left it and no heuristic step is
  applied; when the registry is empty or \<open>FromConfig\<close> returns false, the result is that
  of the heuristic waterfall on the edge.
\<close>

theorem UpdateSpeed_config_first:
  "(ts \<noteq> Map.empty \<and> FromConfig k ts e density c s = Inr (True, e')
      \<longrightarrow> UpdateSpeed k ts e density urban infer c s = Inr e')
   \<and> (ts = Map.empty \<or> FromConfig k ts e density c s = Inr (False, e')
      \<longrightarrow> UpdateSpeed k ts e density urban infer c s = heuristic k e density urban infer)"
  by (auto simp: UpdateSpeed_def dest: FromConfig_False)

text \<open>
  Claim C9. Whenever \<open>UpdateSpeed\<close> or \<open>FromConfig\<close> returns an edge, that edge is the
  given one with at most its speed replaced: every other field, the fields this code never
  reads included, is unchanged.
\<close>

theorem UpdateSpeed_frame:
  "(UpdateSpeed k ts e density urban infer c s = Inr e' \<longrightarrow> e' = e\<lparr>speed := speed e'\<rparr>)
   \<and> (FromConfig k ts e density c s = Inr (b, e'') \<longrightarrow> e'' = e\<lparr>speed := speed e''\<rparr>)"
proof (intro conjI impI)
  assume u: "UpdateSpeed k ts e density urban infer c s = Inr e'"
  show "e' = e\<lparr>speed := speed e'\<rparr>"
  proof (cases "ts = Map.empty")
    case True
    with u show ?thesis by (simp add: UpdateSpeed_def heuristic_frame)
  next
    case False
    show ?thesis
    proof (cases "FromConfig k ts e density c s")
      case (Inl err)
      with u False show ?thesis by (simp add: UpdateSpeed_def)
    next
      case (Inr p)
      obtain r e1 where p: "p = (r, e1)" by (cases p)
      show ?thesis
      proof (cases r)
        case True
        with u False Inr p have "e' = e1" by (simp add: UpdateSpeed_def)
        moreover from Inr p have "e1 = e\<lparr>speed := speed e1\<rparr>" by (simp add: FromConfig_frame)
        ultimately show ?thesis by simp
      next
        case f: False
        with Inr p have "FromConfig k ts e density c s = Inr (False, e1)" by simp
        then have "e1 = e" by (rule FromConfig_False)
        with u False Inr p f show ?thesis by (simp add: UpdateSpeed_def heuristic_frame)
      qed
    qed
  qed
next
  assume "FromConfig k ts e density c s = Inr (b, e'')"
  then show "e'' = e\<lparr>speed := speed e''\<rparr>" by (rule FromConfig_frame)
qed

lemma sample_tables_nonempty: "sample_tables \<noteq> Map.empty"
  by (simp add: sample_tables_def)

lemma FromConfig_sample:
  "FromConfig sample_constants sample_tables sample_edge 5 ''us'' ''pa''
     = Inr (True, sample_edge\<lparr>speed := 33\<rparr>)"
  by (simp add: FromConfig_def find_tables_def sample_tables_def sample_constants_def
      sample_edge_def assign_from_table_def assign_def array_at_def set_speed_def sample_rural_def)

lemma FromConfig_sample_ferry:
  "FromConfig sample_constants sample_tables (sample_edge\<lparr>use := kFerry\<rparr>) 5 ''us'' ''pa''
     = Inr (False, sample_edge\<lparr>use := kFerry\<rparr>)"
  by (simp add: FromConfig_def sample_edge_def)

theorem UpdateSpeed_config_first_witness:
  "UpdateSpeed sample_constants sample_tables sample_edge 5 [] False ''us'' ''pa''
     = Inr (sample_edge\<lparr>speed := 33\<rparr>)
   \<and> UpdateSpeed sample_constants sample_tables (sample_edge\<lparr>use := kFerry\<rparr>) 5 [] False ''us'' ''pa''
     = heuristic sample_constants (sample_edge\<lparr>use := kFerry\<rparr>) 5 [] False
   \<and> UpdateSpeed sample_constants Map.empty sample_edge 5 [] False ''us'' ''pa''
     = heuristic sample_constants sample_edge 5 [] False"
  using UpdateSpeed_config_first [of sample_tables sample_constants sample_edge 5 "''us''" "''pa''"
      "sample_edge\<lparr>speed := 33\<rparr>" "[]" False]
    UpdateSpeed_config_first [of sample_tables sample_constants "sample_edge\<lparr>use := kFerry\<rparr>" 5
      "''us''" "''pa''" "sample_edge\<lparr>use := kFerry\<rparr>" "[]" False]
    UpdateSpeed_config_first [of Map.empty sample_constants sample_edge 5 "''us''" "''pa''"
      sample_edge "[]" False]
  by (simp add: sample_tables_nonempty FromConfig_sample FromConfig_sample_ferry)

theorem UpdateSpeed_frame_witness:
  "UpdateSpeed sample_constants sample_tables sample_edge 5 [] False ''us'' ''pa''
     = Inr (sample_edge\<lparr>speed := 33\<rparr>)
   \<and> sample_edge\<lparr>speed := 33\<rparr> = sample_edge\<lparr>speed := speed (sample_edge\<lparr>speed := 33\<rparr>)\<rparr>
   \<and> FromConfig sample_constants sample_tables sample_edge 5 ''us'' ''pa''
     = Inr (True, sample_edge\<lparr>speed := 33\<rparr>)"
  using UpdateSpeed_frame [of sample_constants sample_tables sample_edge 5 "[]" False "''us''" "''pa''"
      "sample_edge\<lparr>speed := 33\<rparr>" True "sample_edge\<lparr>speed := 33\<rparr>"]
  by (simp add: UpdateSpeed_def sample_tables_nonempty FromConfig_sample)

text \<open>
  Claim C2. \<open>FromConfig\<close> returns false and the edge as given when the use is ferry or
  rail ferry, or the forward and reverse access masks together have no bit of
  \<open>kVehicularAccess\<close>, or none of the keys \<open>country.state\<close>, \<open>country.\<close> and the empty
  key is in the registry. For any other edge the entry used is the first one present among
  those keys, in that order.
\<close>

theorem FromConfig_not_resolved:
  "(use e = kFerry \<or> use e = kRailFerry
      \<or> (forwardaccess e OR reverseaccess e) AND kVehicularAccess k = 0
      \<or> (ts (country @ ''.'' @ state) = None \<and> ts (country @ ''.'') = None \<and> ts '''' = None)
     \<longrightarrow> FromConfig k ts e density country state = Inr (False, e))
   \<and> (\<not> (use e = kFerry \<or> use e = kRailFerry
          \<or> (forwardaccess e OR reverseaccess e) AND kVehicularAccess k = 0)
     \<longrightarrow> FromConfig k ts e density country state =
        (let pick = (\<lambda>found. assign_from_table (if density \<le> 8 then snd found else fst found)
                       (rank (classification e)) e)
         in case ts (country @ ''.'' @ state) of
              Some found \<Rightarrow> pick found
            | None \<Rightarrow>
                (case ts (country @ ''.'') of
                   Some found \<Rightarrow> pick found
                 | None \<Rightarrow>
                     (case ts '''' of
                        Some found \<Rightarrow> pick found
                      | None \<Rightarrow> Inr (False, e)))))"
  by (auto simp: FromConfig_def find_tables_def Let_def split: option.splits)

theorem FromConfig_not_resolved_witness:
  "FromConfig sample_constants spec_tables (sample_edge\<lparr>use := kFerry\<rparr>) 5 ''us'' ''pa''
     = Inr (False, sample_edge\<lparr>use := kFerry\<rparr>)
   \<and> FromConfig sample_constants spec_tables (sample_edge\<lparr>forwardaccess := 2\<rparr>) 5 ''us'' ''pa''
     = Inr (False, sample_edge\<lparr>forwardaccess := 2\<rparr>)
   \<and> FromConfig sample_constants sample_tables sample_edge 5 ''us'' ''ca'' = Inr (False, sample_edge)
   \<and> FromConfig sample_constants spec_tables sample_edge 5 ''us'' ''pa''
     = Inr (True, sample_edge\<lparr>speed := 33\<rparr>)
   \<and> FromConfig sample_constants spec_tables sample_edge 5 ''us'' ''ca''
     = Inr (True, sample_edge\<lparr>speed := 92\<rparr>)
   \<and> FromConfig sample_constants spec_tables sample_edge 9 ''fr'' ''''
     = Inr (True, sample_edge\<lparr>speed := 73\<rparr>)"
  using FromConfig_not_resolved [of "sample_edge\<lparr>use := kFerry\<rparr>" sample_constants spec_tables
      "''us''" "''pa''" 5]
    FromConfig_not_resolved [of "sample_edge\<lparr>forwardaccess := 2\<rparr>" sample_constants spec_tables
      "''us''" "''pa''" 5]
    FromConfig_not_resolved [of sample_edge sample_constants sample_tables "''us''" "''ca''" 5]
    FromConfig_not_resolved [of sample_edge sample_constants spec_tables "''us''" "''pa''" 5]
    FromConfig_not_resolved [of sample_edge sample_constants spec_tables "''us''" "''ca''" 5]
    FromConfig_not_resolved [of sample_edge sample_constants spec_tables "''fr''" "''''" 9]
  by (simp add: sample_edge_def sample_constants_def sample_tables_def spec_tables_def
      assign_from_table_def assign_def array_at_def set_speed_def sample_rural_def sample_urban_def flat_table_def)


text \<open>
  Claim C3. With an entry found for an edge that is not excluded, the table is the rural one
  when \<open>density <= 8\<close> and the urban one otherwise, and the first branch that applies
  decides: the four service uses take \<open>service[0..3]\<close>; a link of rank 5 or more is not
  resolved and keeps its speed, a link of lower rank takes \<open>link_exiting[rank]\<close> when it
  carries a sign and \<open>link_turning[rank]\<close> otherwise; a roundabout takes
  \<open>roundabout[rank]\<close>; any other edge takes \<open>way[rank]\<close>.
\<close>

theorem FromConfig_resolved:
  assumes "\<not> (use e = kFerry \<or> use e = kRailFerry
             \<or> (forwardaccess e OR reverseaccess e) AND kVehicularAccess k = 0)"
    and "find_tables ts country state = Some (urban, rural)"
  shows "FromConfig k ts e density country state =
     (let t = (if density \<le> 8 then rural else urban); r = rank (classification e) in
      if use e = kDriveway then Inr (True, e\<lparr>speed := service t 0\<rparr>)
      else if use e = kAlley then Inr (True, e\<lparr>speed := service t 1\<rparr>)
      else if use e = kParkingAisle then Inr (True, e\<lparr>speed := service t 2\<rparr>)
      else if use e = kDriveThru then Inr (True, e\<lparr>speed := service t 3\<rparr>)
      else if link e then
        (if r \<ge> 5 then Inr (False, e)
         else if sign e then Inr (True, e\<lparr>speed := link_exiting t r\<rparr>)
         else Inr (True, e\<lparr>speed := link_turning t r\<rparr>))
      else if roundabout e then Inr (True, e\<lparr>speed := roundabout_speeds t r\<rparr>)
      else Inr (True, e\<lparr>speed := way t r\<rparr>))"
proof -
  have r: "rank (classification e) < 8"
    by (cases "classification e") simp_all
  from assms r show ?thesis
    by (simp add: FromConfig_def Let_def assign_from_table_def assign_def array_at_def
        set_speed_def)
qed

lemma spec_tables_us_pa: "find_tables spec_tables ''us'' ''pa'' = Some (sample_urban, sample_rural)"
  by (simp add: find_tables_def spec_tables_def)

theorem FromConfig_resolved_witness:
  "FromConfig sample_constants spec_tables sample_edge 8 ''us'' ''pa''
     = Inr (True, sample_edge\<lparr>speed := 33\<rparr>)
   \<and> FromConfig sample_constants spec_tables sample_edge 9 ''us'' ''pa''
     = Inr (True, sample_edge\<lparr>speed := 1\<rparr>)
   \<and> FromConfig sample_constants spec_tables (sample_edge\<lparr>use := kAlley\<rparr>) 9 ''us'' ''pa''
     = Inr (True, sample_edge\<lparr>use := kAlley, speed := 30\<rparr>)
   \<and> FromConfig sample_constants spec_tables
        (sample_edge\<lparr>link := True, classification := kUnclassified\<rparr>) 9 ''us'' ''pa''
     = Inr (False, sample_edge\<lparr>link := True, classification := kUnclassified\<rparr>)
   \<and> FromConfig sample_constants spec_tables
        (sample_edge\<lparr>link := True, sign := True, classification := kTertiary\<rparr>) 9 ''us'' ''pa''
     = Inr (True, sample_edge\<lparr>link := True, sign := True, classification := kTertiary, speed := 13\<rparr>)
   \<and> FromConfig sample_constants spec_tables
        (sample_edge\<lparr>link := True, classification := kTrunk\<rparr>) 9 ''us'' ''pa''
     = Inr (True, sample_edge\<lparr>link := True, classification := kTrunk, speed := 16\<rparr>)
   \<and> FromConfig sample_constants spec_tables
        (sample_edge\<lparr>roundabout := True, classification := kServiceOther\<rparr>) 9 ''us'' ''pa''
     = Inr (True, sample_edge\<lparr>roundabout := True, classification := kServiceOther, speed := 28\<rparr>)"
proof -
  have a: "\<not> (use (x::DirectedEdge) = kFerry \<or> use x = kRailFerry
             \<or> (forwardaccess x OR reverseaccess x) AND kVehicularAccess sample_constants = 0)"
    if "use x \<noteq> kFerry" "use x \<noteq> kRailFerry" "forwardaccess x = 1" "reverseaccess x = 0" for x
    using that by (simp add: sample_constants_def)
  note t = FromConfig_resolved [OF a spec_tables_us_pa]
  show ?thesis
    by (simp add: t sample_edge_def sample_urban_def sample_rural_def)
qed

text \<open>
  Claim C6. For an edge that is not a link and whose speed is tagged, when the heuristic
  runs the only change is the surface rule: on a surface of rank \<open>kPavedRough\<close> or more the
  speed loses 10 when it is at least 50, else 5 when it is above 15, else nothing. No urban,
  roundabout, service or halving step applies.
\<close>

theorem UpdateSpeed_tagged:
  assumes "\<not> link e" and "speed_type e = kTagged"
    and "ts = Map.empty \<or> FromConfig k ts e density country state = Inr (False, e)"
  shows "UpdateSpeed k ts e density urban infer country state =
     Inr (e\<lparr>speed :=
        (if surface e \<ge> kPavedRough k then
           (if speed e \<ge> 50 then speed e - 10
            else if speed e > 15 then speed e - 5
            else speed e)
         else speed e)\<rparr>)"
proof -
  have "UpdateSpeed k ts e density urban infer country state = heuristic k e density urban infer"
    using assms(3) by (auto simp: UpdateSpeed_def)
  with assms(1,2) show ?thesis
    by (simp add: heuristic_def tagged_speed_def set_speed_def)
qed

theorem UpdateSpeed_tagged_witness:
  "UpdateSpeed sample_constants Map.empty
      (sample_edge\<lparr>speed_type := kTagged, surface := 2, speed := 55\<rparr>) 9 [] False ''us'' ''pa''
     = Inr (sample_edge\<lparr>speed_type := kTagged, surface := 2, speed := 45\<rparr>)
   \<and> UpdateSpeed sample_constants Map.empty
      (sample_edge\<lparr>speed_type := kTagged, surface := 2, speed := 40\<rparr>) 9 [] False ''us'' ''pa''
     = Inr (sample_edge\<lparr>speed_type := kTagged, surface := 2, speed := 35\<rparr>)
   \<and> UpdateSpeed sample_constants Map.empty
      (sample_edge\<lparr>speed_type := kTagged, surface := 2, speed := 10\<rparr>) 9 [] False ''us'' ''pa''
     = Inr (sample_edge\<lparr>speed_type := kTagged, surface := 2, speed := 10\<rparr>)
   \<and> UpdateSpeed sample_constants Map.empty
      (sample_edge\<lparr>speed_type := kTagged, roundabout := True, use := kDriveway, surface := 1\<rparr>)
        9 [] False ''us'' ''pa''
     = Inr (sample_edge\<lparr>speed_type := kTagged, roundabout := True, use := kDriveway, surface := 1\<rparr>)"
  using
    UpdateSpeed_tagged [where e = "sample_edge\<lparr>speed_type := kTagged, surface := 2, speed := 55\<rparr>"
      and ts = Map.empty and k = sample_constants and density = 9 and urban = "[]"
      and infer = False and country = "''us''" and state = "''pa''"]
    UpdateSpeed_tagged [where e = "sample_edge\<lparr>speed_type := kTagged, surface := 2, speed := 40\<rparr>"
      and ts = Map.empty and k = sample_constants and density = 9 and urban = "[]"
      and infer = False and country = "''us''" and state = "''pa''"]
    UpdateSpeed_tagged [where e = "sample_edge\<lparr>speed_type := kTagged, surface := 2, speed := 10\<rparr>"
      and ts = Map.empty and k = sample_constants and density = 9 and urban = "[]"
      and infer = False and country = "''us''" and state = "''pa''"]
    UpdateSpeed_tagged [where e = "sample_edge\<lparr>speed_type := kTagged, roundabout := True,
        use := kDriveway, surface := 1\<rparr>"
      and ts = Map.empty and k = sample_constants and density = 9 and urban = "[]"
      and infer = False and country = "''us''" and state = "''pa''"]
  by (simp add: sample_edge_def sample_constants_def)

subsection \<open>Rounding to binary32\<close>

text \<open>The factors are binary32 values in \<open>[1/2, 2)\<close>: 5/4 and 1/2 exactly, and the values
  within half a unit of \<open>2^-24\<close> of 4/5 and 17/20.\<close>

lemma factor_values:
  "kTurnChannelFactor * 4 = 5 * 2 ^ 24"
  "kRoundaboutFactor * 2 = 2 ^ 24"
  "2 ^ 23 \<le> kRampDensityFactor" "kRampDensityFactor < 2 ^ 24"
  "4 * 2 ^ 24 \<le> kRampDensityFactor * 5" "2 * (kRampDensityFactor * 5 - 4 * 2 ^ 24) \<le> 5"
  "2 ^ 23 \<le> kRampFactor" "kRampFactor < 2 ^ 24"
  "17 * 2 ^ 24 \<le> kRampFactor * 20" "2 * (kRampFactor * 20 - 17 * 2 ^ 24) \<le> 20"
  by (simp_all add: kTurnChannelFactor_def kRoundaboutFactor_def kRampDensityFactor_def
      kRampFactor_def)






subsection \<open>The scaling expression against exact arithmetic\<close>












subsection \<open>The heuristic branches\<close>

lemma UpdateSpeed_heuristic:
  "ts = Map.empty \<or> FromConfig k ts e density country state = Inr (False, e)
   \<Longrightarrow> UpdateSpeed k ts e density urban infer country state = heuristic k e density urban infer"
  by (auto simp: UpdateSpeed_def)



lemma rank_le_7: "rank c \<le> 7"
  by (cases c) simp_all

lemma heuristic_cumulative:
  assumes "\<not> link e" "speed_type e \<noteq> kTagged" "use e \<noteq> kRailFerry" "use e \<noteq> kFerry"
  shows "heuristic k e density urban infer =
       (case (if density > 8 then
                (if rank (classification e) < length urban
                 then Inr (urban ! rank (classification e)) else Inl OutOfBounds)
              else Inr (speed e)) of
          Inl err \<Rightarrow> Inl err
        | Inr s1 \<Rightarrow>
            (case (if roundabout e then scaled_speed s1 kRoundaboutFactor else Inr s1) of
               Inl err \<Rightarrow> Inl err
             | Inr s2 \<Rightarrow>
                 Inr (e\<lparr>speed :=
                   (let s3 = (if use e = kParkingAisle then kParkingAisleSpeed k
                              else if use e = kDriveway then kDrivewaySpeed k
                              else if use e = kDriveThru then kDriveThruSpeed k
                              else s2)
                    in if surface e \<ge> kPavedRough k then s3 div 2 else s3)\<rparr>)))"
  using assms
  by (auto simp: heuristic_def urban_step_def roundabout_step_def service_step_def
      surface_step_def store_def urban_at_def set_speed_def Let_def split: sum.splits)




subsection \<open>Bounds of the table accesses\<close>

lemma assign_from_table_OutOfBounds:
  "assign_from_table t rc e = Inl err \<longleftrightarrow>
     err = OutOfBounds \<and> use e \<notin> {kDriveway, kAlley, kParkingAisle, kDriveThru} \<and> \<not> link e \<and> 8 \<le> rc"
  by (auto simp: assign_from_table_def assign_def array_at_def split: if_splits)

lemma FromConfig_no_error: "FromConfig k ts e density country state \<noteq> Inl err"
proof -
  have "\<not> 8 \<le> rank (classification e)" using rank_le_7 [of "classification e"] by simp
  then show ?thesis
    by (auto simp: FromConfig_def Let_def assign_from_table_OutOfBounds split: option.splits)
qed

lemma urban_at_all_ranks: "(\<forall>c. urban_at urban (rank c) \<noteq> Inl OutOfBounds) \<longleftrightarrow> 8 \<le> length urban"
proof
  assume "\<forall>c. urban_at urban (rank c) \<noteq> Inl OutOfBounds"
  then have "urban_at urban (rank kServiceOther) \<noteq> Inl OutOfBounds" by blast
  then show "8 \<le> length urban" by (simp add: urban_at_def split: if_splits)
next
  assume l: "8 \<le> length urban"
  show "\<forall>c. urban_at urban (rank c) \<noteq> Inl OutOfBounds"
  proof
    fix c
    have "rank c < length urban" using rank_le_7 [of c] l by simp
    then show "urban_at urban (rank c) \<noteq> Inl OutOfBounds" by (simp add: urban_at_def)
  qed
qed

lemma scaled_speed_not_OutOfBounds: "scaled_speed w c \<noteq> Inl OutOfBounds"
  by (simp add: scaled_speed_def Let_def)

text \<open>
  Claim C10. The unchecked reads of \<open>way\<close> and \<open>roundabout\<close> in \<open>FromConfig\<close> are out of
  bounds exactly for an index of 8 or more, the link arrays are never read out of bounds
  whatever the index, and the service array never; a classification rank is at most 7, so
  \<open>FromConfig\<close> never fails. In the urban step of the heuristic the read of
  \<open>urban_rc_speed[rank]\<close> is out of bounds exactly when the caller's array has no more than
  \<open>rank\<close> entries, and it is in bounds for every class exactly when the array has at least
  8 entries.
\<close>

theorem table_access_in_bounds:
  "(assign_from_table t rc e = Inl OutOfBounds \<longleftrightarrow>
      use e \<notin> {kDriveway, kAlley, kParkingAisle, kDriveThru} \<and> \<not> link e \<and> 8 \<le> rc)
   \<and> rank (classification e) \<le> 7
   \<and> (\<forall>err. FromConfig k ts e density country state \<noteq> Inl err)
   \<and> (\<not> link e \<and> speed_type e \<noteq> kTagged \<and> use e \<noteq> kRailFerry \<and> use e \<noteq> kFerry
        \<and> density > 8
        \<and> (ts = Map.empty \<or> FromConfig k ts e density country state = Inr (False, e))
      \<longrightarrow> (UpdateSpeed k ts e density urban infer country state = Inl OutOfBounds
            \<longleftrightarrow> length urban \<le> rank (classification e)))
   \<and> ((\<forall>c. urban_at urban (rank c) \<noteq> Inl OutOfBounds) \<longleftrightarrow> 8 \<le> length urban)"
proof (intro conjI allI impI)
  show "assign_from_table t rc e = Inl OutOfBounds \<longleftrightarrow>
      use e \<notin> {kDriveway, kAlley, kParkingAisle, kDriveThru} \<and> \<not> link e \<and> 8 \<le> rc"
    by (simp add: assign_from_table_OutOfBounds)
next
  show "rank (classification e) \<le> 7" by (rule rank_le_7)
next
  fix err
  show "FromConfig k ts e density country state \<noteq> Inl err" by (rule FromConfig_no_error)
next
  assume a: "\<not> link e \<and> speed_type e \<noteq> kTagged \<and> use e \<noteq> kRailFerry \<and> use e \<noteq> kFerry
        \<and> density > 8
        \<and> (ts = Map.empty \<or> FromConfig k ts e density country state = Inr (False, e))"
  then have u: "UpdateSpeed k ts e density urban infer country state
      = heuristic k e density urban infer"
    by (intro UpdateSpeed_heuristic) simp
  from a have h: "heuristic k e density urban infer =
       (case (if rank (classification e) < length urban
                 then Inr (urban ! rank (classification e)) else Inl OutOfBounds) of
          Inl err \<Rightarrow> Inl err
        | Inr s1 \<Rightarrow>
            (case (if roundabout e then scaled_speed s1 kRoundaboutFactor else Inr s1) of
               Inl err \<Rightarrow> Inl err
             | Inr s2 \<Rightarrow>
                 Inr (e\<lparr>speed :=
                   (let s3 = (if use e = kParkingAisle then kParkingAisleSpeed k
                              else if use e = kDriveway then kDrivewaySpeed k
                              else if use e = kDriveThru then kDriveThruSpeed k
                              else s2)
                    in if surface e \<ge> kPavedRough k then s3 div 2 else s3)\<rparr>)))"
    by (simp add: heuristic_cumulative)
  show "UpdateSpeed k ts e density urban infer country state = Inl OutOfBounds
            \<longleftrightarrow> length urban \<le> rank (classification e)"
    unfolding u h using scaled_speed_not_OutOfBounds
    by (auto split: sum.splits if_splits)
next
  show "(\<forall>c. urban_at urban (rank c) \<noteq> Inl OutOfBounds) \<longleftrightarrow> 8 \<le> length urban"
    by (rule urban_at_all_ranks)
qed

theorem table_access_in_bounds_witness:
  "assign_from_table sample_rural 8 sample_edge = Inl OutOfBounds
   \<and> assign_from_table sample_rural 7 sample_edge = Inr (True, sample_edge\<lparr>speed := 40\<rparr>)
   \<and> assign_from_table sample_rural 7 (sample_edge\<lparr>link := True\<rparr>)
       = Inr (False, sample_edge\<lparr>link := True\<rparr>)
   \<and> UpdateSpeed sample_constants Map.empty (sample_edge\<lparr>classification := kResidential\<rparr>) 9
        [50, 45, 40, 35, 30, 25] False [] [] = Inl OutOfBounds
   \<and> UpdateSpeed sample_constants Map.empty (sample_edge\<lparr>classification := kUnclassified\<rparr>) 9
        [50, 45, 40, 35, 30, 25] False [] []
       = Inr (sample_edge\<lparr>classification := kUnclassified, speed := 25\<rparr>)
   \<and> urban_at [50, 45, 40, 35, 30, 25, 20, 15] (rank kServiceOther) = Inr 15"
proof -
  note t1 = table_access_in_bounds [of sample_rural 8 sample_edge sample_constants Map.empty 9
      "[]" "[]" "[50, 45, 40, 35, 30, 25]" False]
  note t2 = table_access_in_bounds [of sample_rural 7 "sample_edge\<lparr>classification := kResidential\<rparr>"
      sample_constants Map.empty 9 "[]" "[]" "[50, 45, 40, 35, 30, 25]" False]
  note t3 = table_access_in_bounds [of sample_rural 7 sample_edge sample_constants Map.empty 9
      "[]" "[]" "[50, 45, 40, 35, 30, 25, 20, 15]" False]
  have a: "assign_from_table sample_rural 8 sample_edge = Inl OutOfBounds"
    using t1 by (simp add: sample_edge_def)
  have b: "UpdateSpeed sample_constants Map.empty (sample_edge\<lparr>classification := kResidential\<rparr>) 9
        [50, 45, 40, 35, 30, 25] False [] [] = Inl OutOfBounds"
    using t2 by (simp add: sample_edge_def)
  have "\<forall>c. urban_at [50, 45, 40, 35, 30, 25, 20, 15] (rank c) \<noteq> Inl OutOfBounds"
    using t3 by simp
  then have c: "urban_at [50, 45, 40, 35, 30, 25, 20, 15] (rank kServiceOther) \<noteq> Inl OutOfBounds"
    by (rule spec)
  have d: "urban_at [50, 45, 40, 35, 30, 25, 20, 15] (rank kServiceOther) = Inr 15"
    using c by (simp add: urban_at_def)
  show ?thesis
    using a b d
    by (simp add: assign_from_table_def assign_def array_at_def set_speed_def sample_edge_def
        sample_rural_def sample_constants_def UpdateSpeed_def heuristic_def urban_step_def
        roundabout_step_def service_step_def surface_step_def store_def urban_at_def)
qed

subsection \<open>Reading the configuration\<close>

lemma ebind_Inr_iff: "ebind m f = Inr y \<longleftrightarrow> (\<exists>v. m = Inr v \<and> f v = Inr y)"
  by (cases m) (simp_all add: ebind_def)

lemma GetUint_Inr_iff: "GetUint x = Inr v \<longleftrightarrow> x = JInt (uint v)"
proof
  assume "GetUint x = Inr v"
  then obtain n where x: "x = JInt n" and n: "0 \<le> n" "n < 2 ^ 32" and v: "v = of_int n"
    by (auto simp: GetUint_def split: json.splits if_splits)
  from n have "uint (word_of_int n :: u32) = n"
    by (simp add: uint_word_of_int take_bit_int_eq_self)
  with x v show "x = JInt (uint v)" by simp
next
  assume "x = JInt (uint v)"
  moreover have "uint v < 2 ^ 32" using uint_bounded [of v] by simp
  ultimately show "GetUint x = Inr v" by (simp add: GetUint_def)
qed

lemma is_uint_iff: "is_uint x \<longleftrightarrow> (\<exists>v. GetUint x = Inr v)"
proof
  assume "is_uint x"
  then obtain n where x: "x = JInt n" and n: "0 \<le> n" "n < 2 ^ 32"
    by (auto simp: is_uint_def split: json.splits)
  then have "GetUint x = Inr (of_int n)" by (simp add: GetUint_def)
  then show "\<exists>v. GetUint x = Inr v" ..
next
  assume "\<exists>v. GetUint x = Inr v"
  then obtain v where "GetUint x = Inr v" ..
  then have "x = JInt (uint v)" by (simp only: GetUint_Inr_iff)
  moreover have "uint v < 2 ^ 32" using uint_bounded [of v] by simp
  ultimately show "is_uint x" by (simp add: is_uint_def)
qed

lemma get_uints_Inr_iff: "get_uints xs = Inr vs \<longleftrightarrow> xs = map (\<lambda>v. JInt (uint v)) vs"
proof (induction xs arbitrary: vs)
  case Nil
  then show ?case by auto
next
  case (Cons x xs)
  show ?case
    by (cases vs) (auto simp: ebind_Inr_iff GetUint_Inr_iff Cons.IH)
qed

lemma list_all_is_uint_iff: "list_all is_uint xs \<longleftrightarrow> (\<exists>vs. get_uints xs = Inr vs)"
proof (induction xs)
  case Nil
  then show ?case by simp
next
  case (Cons x xs)
  then show ?case by (auto simp: ebind_Inr_iff is_uint_iff)
qed

lemma GetArray_Inr_iff: "GetArray v = Inr xs \<longleftrightarrow> v = JArray xs"
  by (cases v) (simp_all add: GetArray_def)

lemma parse_Inr_iff:
  "parse obj name n = Inr a \<longleftrightarrow>
     (\<exists>vs. member obj name = Inr (JArray (map (\<lambda>v. JInt (uint v)) vs)) \<and> length vs = n
        \<and> a = (\<lambda>i. vs ! i))"
proof
  assume "parse obj name n = Inr a"
  then obtain arr entries where "member obj name = Inr (JArray arr)" "length arr = n"
    "get_uints arr = Inr entries" "a = (\<lambda>i. entries ! i)"
    unfolding parse_def ebind_Inr_iff GetArray_Inr_iff
    by (auto simp: ebind_Inr_iff split: if_splits)
  moreover from this have "arr = map (\<lambda>v. JInt (uint v)) entries"
    by (simp add: get_uints_Inr_iff)
  ultimately show "\<exists>vs. member obj name = Inr (JArray (map (\<lambda>v. JInt (uint v)) vs))
      \<and> length vs = n \<and> a = (\<lambda>i. vs ! i)"
    by auto
next
  assume "\<exists>vs. member obj name = Inr (JArray (map (\<lambda>v. JInt (uint v)) vs))
      \<and> length vs = n \<and> a = (\<lambda>i. vs ! i)"
  then obtain vs where "member obj name = Inr (JArray (map (\<lambda>v. JInt (uint v)) vs))"
    "length vs = n" "a = (\<lambda>i. vs ! i)"
    by blast
  moreover have "get_uints (map (\<lambda>v. JInt (uint v)) vs) = Inr vs"
    by (simp add: get_uints_Inr_iff)
  ultimately show "parse obj name n = Inr a"
    by (simp add: parse_def ebind_def GetArray_def)
qed


lemma has_uints_iff: "has_uints obj name n \<longleftrightarrow> (\<exists>a. parse obj name n = Inr a)"
proof
  assume "has_uints obj name n"
  then obtain xs where m: "member obj name = Inr (JArray xs)" and l: "length xs = n"
    and u: "list_all is_uint xs"
    by (auto simp: has_uints_def split: sum.splits json.splits)
  from u obtain vs where "get_uints xs = Inr vs" by (auto simp: list_all_is_uint_iff)
  then have "xs = map (\<lambda>v. JInt (uint v)) vs" by (simp add: get_uints_Inr_iff)
  with m l have "parse obj name n = Inr (\<lambda>i. vs ! i)" by (auto simp: parse_Inr_iff)
  then show "\<exists>a. parse obj name n = Inr a" by blast
next
  assume "\<exists>a. parse obj name n = Inr a"
  then obtain a where "parse obj name n = Inr a" ..
  then have "\<exists>vs. member obj name = Inr (JArray (map (\<lambda>v. JInt (uint v)) vs)) \<and> length vs = n
      \<and> a = (\<lambda>i. vs ! i)"
    by (simp only: parse_Inr_iff)
  then obtain vs :: "u32 list"
    where m: "member obj name = Inr (JArray (map (\<lambda>v. JInt (uint v)) vs))"
      and l: "length vs = n"
    by blast
  have "get_uints (map (\<lambda>v. JInt (uint v)) vs) = Inr vs" by (simp add: get_uints_Inr_iff)
  then have "list_all is_uint (map (\<lambda>v. JInt (uint v)) vs)"
    unfolding list_all_is_uint_iff ..
  with m l show "has_uints obj name n" by (simp add: has_uints_def)
qed


lemma has_uint_iff: "has_uint obj name \<longleftrightarrow> (\<exists>w. ebind (member obj name) GetUint = Inr w)"
  by (auto simp: has_uint_def ebind_Inr_iff is_uint_iff split: sum.splits)


lemma well_formed_table_iff: "well_formed_table obj \<longleftrightarrow> (\<exists>t. SpeedTable_ctor obj = Inr t)"
  by (simp add: well_formed_table_def has_uints_iff has_uint_iff SpeedTable_ctor_def
      ebind_Inr_iff [of "parse _ _ _"] ebind_Inr_iff [of "ebind _ _"]) blast

lemma GetString_Inr_iff: "GetString v = Inr s \<longleftrightarrow> v = JString s"
  by (cases v) (simp_all add: GetString_def)

lemma load_record_Inr_iff:
  "load_record cs = Inr (code, urban, rural) \<longleftrightarrow>
     (\<exists>c1 c2 u r. member cs ''iso3166-1'' = Inr (JString c1)
        \<and> member cs ''iso3166-2'' = Inr (JString c2)
        \<and> member cs ''urban'' = Inr u \<and> SpeedTable_ctor u = Inr urban
        \<and> member cs ''rural'' = Inr r \<and> SpeedTable_ctor r = Inr rural
        \<and> code = c1 @ ''.'' @ c2)"
  by (auto simp: load_record_def ebind_Inr_iff GetString_Inr_iff)

lemma has_string_iff: "has_string cs name \<longleftrightarrow> (\<exists>s. member cs name = Inr (JString s))"
  by (auto simp: has_string_def split: sum.splits json.splits)

lemma has_table_iff:
  "has_table cs name \<longleftrightarrow> (\<exists>u t. member cs name = Inr u \<and> SpeedTable_ctor u = Inr t)"
  by (auto simp: has_table_def well_formed_table_iff split: sum.splits)

lemma well_formed_record_iff: "well_formed_record cs \<longleftrightarrow> (\<exists>x. load_record cs = Inr x)"
proof
  assume "well_formed_record cs"
  then obtain c1 c2 u urban r rural where "member cs ''iso3166-1'' = Inr (JString c1)"
    "member cs ''iso3166-2'' = Inr (JString c2)"
    "member cs ''urban'' = Inr u" "SpeedTable_ctor u = Inr urban"
    "member cs ''rural'' = Inr r" "SpeedTable_ctor r = Inr rural"
    unfolding well_formed_record_def has_string_iff has_table_iff by blast
  then have "load_record cs = Inr (c1 @ ''.'' @ c2, urban, rural)"
    unfolding load_record_Inr_iff by blast
  then show "\<exists>x. load_record cs = Inr x" ..
next
  assume "\<exists>x. load_record cs = Inr x"
  then obtain code urban rural where "load_record cs = Inr (code, urban, rural)"
    by (metis prod_cases3)
  then show "well_formed_record cs"
    unfolding well_formed_record_def has_string_iff has_table_iff load_record_Inr_iff by blast
qed



lemma load_records_well_formed:
  "(\<exists>ts'. load_records css ts = Inr ts') \<longleftrightarrow> list_all well_formed_record css"
proof (induction css arbitrary: ts)
  case Nil
  then show ?case by simp
next
  case (Cons cs css)
  show ?case
  proof (cases "load_record cs")
    case (Inl x)
    then have "\<not> well_formed_record cs" by (simp add: well_formed_record_iff)
    with Inl show ?thesis by (simp add: ebind_def)
  next
    case (Inr p)
    then have "well_formed_record cs" unfolding well_formed_record_iff by blast
    with Inr Cons.IH show ?thesis by (simp add: ebind_def split: prod.splits)
  qed
qed

lemma load_well_formed: "(\<exists>ts. load doc = Inr ts) \<longleftrightarrow> well_formed doc"
  by (auto simp: load_def well_formed_def load_records_well_formed split: document.splits json.splits)


lemma SpeedAssigner_Some:
  "SpeedAssigner read_json (Some path) =
     (case read_json path of
        Inl x \<Rightarrow> Inr Map.empty
      | Inr doc \<Rightarrow> (case load doc of Inl x \<Rightarrow> Inr Map.empty | Inr ts \<Rightarrow> Inr ts))"
  by (simp add: SpeedAssigner_def ebind_def split: sum.splits)

lemma load_not_well_formed: "\<not> well_formed doc \<Longrightarrow> \<exists>x. load doc = Inl x"
  using load_well_formed [of doc] by (cases "load doc") auto

text \<open>
  Claim C7. No exception leaves the constructor. When the file cannot be read, or the
  document has a syntax error, is not a sequence of records, lacks a field, or holds an
  array of the wrong length or a value of the wrong kind, the registry is empty. Inside,
  an array of the wrong length fails with the message naming the field and the required
  length. With no configuration path the registry is empty too.
\<close>

theorem SpeedAssigner_malformed:
  "(\<forall>x. SpeedAssigner read_json config_file \<noteq> Inl x)
   \<and> (read_json path = Inl x \<longrightarrow> SpeedAssigner read_json (Some path) = Inr Map.empty)
   \<and> (read_json path = Inr doc \<and> \<not> well_formed doc
        \<longrightarrow> SpeedAssigner read_json (Some path) = Inr Map.empty)
   \<and> (member obj name = Inr (JArray arr) \<and> length arr \<noteq> n
        \<longrightarrow> parse obj name n
            = Inl (runtime_error (name @ '' must have '' @ to_string n @ '' speeds'')))
   \<and> SpeedAssigner read_json None = Inr Map.empty"
proof (intro conjI allI impI)
  fix x
  show "SpeedAssigner read_json config_file \<noteq> Inl x"
    by (simp add: SpeedAssigner_def split: option.splits sum.splits)
next
  assume "read_json path = Inl x"
  then show "SpeedAssigner read_json (Some path) = Inr Map.empty"
    by (simp add: SpeedAssigner_Some)
next
  assume a: "read_json path = Inr doc \<and> \<not> well_formed doc"
  then obtain y where "load doc = Inl y" using load_not_well_formed by blast
  with a show "SpeedAssigner read_json (Some path) = Inr Map.empty"
    by (simp add: SpeedAssigner_Some)
next
  assume "member obj name = Inr (JArray arr) \<and> length arr \<noteq> n"
  then show "parse obj name n
      = Inl (runtime_error (name @ '' must have '' @ to_string n @ '' speeds''))"
    by (simp add: parse_def ebind_def GetArray_def)
next
  show "SpeedAssigner read_json None = Inr Map.empty"
    by (simp add: SpeedAssigner_def)
qed

lemma member_simps:
  "member (JObject ms) name = (case map_of ms name of Some v \<Rightarrow> Inr v | None \<Rightarrow> Inl json_error)"
  by (simp add: member_def)

lemma short_doc_not_well_formed: "\<not> well_formed short_doc"
  by (simp add: well_formed_def short_doc_def well_formed_record_def has_table_def
      well_formed_table_def has_uints_def member_simps)

lemma missing_doc_not_well_formed: "\<not> well_formed missing_doc"
  by (simp add: well_formed_def missing_doc_def well_formed_record_def has_string_def member_simps)

lemma Unparsable_not_well_formed: "\<not> well_formed Unparsable"
  by (simp add: well_formed_def)

theorem SpeedAssigner_malformed_witness:
  "SpeedAssigner (serve (Inr short_doc)) (Some ''speeds.json'') = Inr Map.empty
   \<and> SpeedAssigner (serve (Inr missing_doc)) (Some ''speeds.json'') = Inr Map.empty
   \<and> SpeedAssigner (serve (Inr Unparsable)) (Some ''speeds.json'') = Inr Map.empty
   \<and> SpeedAssigner (serve (Inl other_exception)) (Some ''speeds.json'') = Inr Map.empty
   \<and> parse (JObject [(''way'', JArray [JInt 1, JInt 2, JInt 3])]) ''way'' 8
       = Inl (runtime_error ''way must have 8 speeds'')
   \<and> SpeedAssigner (serve (Inr sample_doc)) None = Inr Map.empty"
  using
    SpeedAssigner_malformed [of "serve (Inr short_doc)" None "''speeds.json''" other_exception
      short_doc "JObject [(''way'', JArray [JInt 1, JInt 2, JInt 3])]" "''way''"
      "[JInt 1, JInt 2, JInt 3]" 8]
    SpeedAssigner_malformed [of "serve (Inr missing_doc)" None "''speeds.json''" other_exception
      missing_doc JNull "[]" "[]" 0]
    SpeedAssigner_malformed [of "serve (Inr Unparsable)" None "''speeds.json''" other_exception
      Unparsable JNull "[]" "[]" 0]
    SpeedAssigner_malformed [of "serve (Inl other_exception)" None "''speeds.json''" other_exception
      Unparsable JNull "[]" "[]" 0]
    SpeedAssigner_malformed [of "serve (Inr sample_doc)" None "''speeds.json''" other_exception
      Unparsable JNull "[]" "[]" 0]
  by (simp add: serve_def short_doc_not_well_formed missing_doc_not_well_formed
      Unparsable_not_well_formed member_simps to_string.simps)















end
